theory Spec2Isabelle
  imports Complex_Main
begin

section \<open>Job Store: the jobs table and the backend resolvers\<close>

text \<open>
  The backend (Go, \<^verbatim>\<open>pkg/resolvers/resolver.go\<close>) keeps jobs in the relational table
  \<^verbatim>\<open>jobs\<close> of migration \<^verbatim>\<open>001_initial_setup.sql\<close>. A row is a record with the fields
  that the resolvers scan into \<^verbatim>\<open>models.Job\<close>; the enum type \<^verbatim>\<open>job_status\<close> is the
  one the migration creates. Identifiers, dates and JSON payloads are text; timestamps are
  readings of a clock (\<^typ>\<open>nat\<close>); \<^verbatim>\<open>progress FLOAT\<close> is a \<^typ>\<open>real\<close>.
\<close>

datatype job_status = PENDING | IN_PROGRESS | COMPLETED | FAILED

text \<open>The cast of a text parameter to the enum \<^verbatim>\<open>job_status\<close>: only the four labels of
  the \<^verbatim>\<open>CREATE TYPE\<close> are accepted.\<close>

definition job_status_of :: "string \<Rightarrow> job_status option" where
  "job_status_of s =
     (if s = ''PENDING'' then Some PENDING
      else if s = ''IN_PROGRESS'' then Some IN_PROGRESS
      else if s = ''COMPLETED'' then Some COMPLETED
      else if s = ''FAILED'' then Some FAILED
      else None)"

record job =
  ID :: string
  UserID :: string
  Status :: job_status
  Progress :: real
  CurrentStep :: "string option"
  TargetDate :: string
  InputData :: "string option"
  Result :: "string option"
  ErrorMessage :: "string option"
  CreatedAt :: nat
  UpdatedAt :: nat

text \<open>
  The column types \<^verbatim>\<open>DATE\<close>, \<^verbatim>\<open>JSONB\<close> and \<^verbatim>\<open>VARCHAR(255)\<close> belong to the
  datastore, not to the repository: which texts each of them takes is a parameter. A text
  that a column takes is stored as supplied.
\<close>

record pg_types =
  is_date :: "string \<Rightarrow> bool"
  is_jsonb :: "string \<Rightarrow> bool"
  is_varchar255 :: "string \<Rightarrow> bool"

text \<open>The database: the ids of the \<^verbatim>\<open>users\<close> table (the target of the foreign key
  \<^verbatim>\<open>jobs.user_id\<close>) and the \<^verbatim>\<open>jobs\<close> table keyed by its primary key.\<close>

record db =
  users :: "string set"
  jobs :: "string \<rightharpoonup> job"

datatype error =
  ErrCreatingJob          \<comment> \<open>\<^verbatim>\<open>error creating job: ...\<close>\<close>
| ErrJobNotFound          \<comment> \<open>\<^verbatim>\<open>job not found\<close>\<close>
| ErrUpdatingJob          \<comment> \<open>\<^verbatim>\<open>error updating job: ...\<close>\<close>
| ErrRedisNotInitialized  \<comment> \<open>\<^verbatim>\<open>redis client not initialized\<close>\<close>
| ErrAddToQueue           \<comment> \<open>\<^verbatim>\<open>failed to add job to queue: ...\<close>\<close>
| ErrPanic                \<comment> \<open>a failed type assertion\<close>

subsection \<open>CreateJob\<close>

record CreateJobInput =
  in_UserID :: string
  in_TargetDate :: string
  in_InputData :: "string option"

text \<open>
  \<^verbatim>\<open>INSERT INTO jobs (...) VALUES (...) RETURNING ...\<close>: the statement fails (\<open>None\<close>) on a
  primary-key conflict, on a \<^verbatim>\<open>user_id\<close> that names no user, on a \<^verbatim>\<open>target_date\<close>
  that is no date, and on an \<^verbatim>\<open>input_data\<close> that is no JSON; otherwise the row is added.
\<close>

definition insert_job :: "pg_types \<Rightarrow> db \<Rightarrow> job \<Rightarrow> db option" where
  "insert_job pg d row =
     (if jobs d (ID row) \<noteq> None then None
      else if UserID row \<notin> users d then None
      else if \<not> is_date pg (TargetDate row) then None
      else if (case InputData row of None \<Rightarrow> False | Some s \<Rightarrow> \<not> is_jsonb pg s) then None
      else Some (d\<lparr>jobs := (jobs d)(ID row \<mapsto> row)\<rparr>))"

text \<open>
  \<^verbatim>\<open>CreateJob\<close>: \<open>uuid\<close> is what \<^verbatim>\<open>uuid.New().String()\<close> drew and \<open>now\<close> what
  \<^verbatim>\<open>time.Now()\<close> read. An absent or empty \<^verbatim>\<open>InputData\<close> is inserted as \<^verbatim>\<open>NULL\<close>.
  The status is \<^verbatim>\<open>models.JobStatusPending\<close> and the progress \<^verbatim>\<open>0.0\<close>. On success the
  returned job is the row the statement returns.
\<close>

definition CreateJob ::
  "pg_types \<Rightarrow> db \<Rightarrow> string \<Rightarrow> nat \<Rightarrow> CreateJobInput \<Rightarrow> error + (db \<times> job)" where
  "CreateJob pg d uuid now input =
     (let inputDataJSON =
            (case in_InputData input of
               None \<Rightarrow> None
             | Some s \<Rightarrow> if s \<noteq> [] then Some s else None);
          row = \<lparr>ID = uuid, UserID = in_UserID input, Status = PENDING, Progress = 0,
                 CurrentStep = None, TargetDate = in_TargetDate input,
                 InputData = inputDataJSON, Result = None, ErrorMessage = None,
                 CreatedAt = now, UpdatedAt = now\<rparr>
      in case insert_job pg d row of
           None \<Rightarrow> Inl ErrCreatingJob
         | Some d' \<Rightarrow> Inr (d', row))"

subsection \<open>UpdateJob\<close>

record UpdateJobInput =
  set_Status :: "string option"
  set_Progress :: "real option"
  set_CurrentStep :: "string option"
  set_Result :: "string option"
  set_ErrorMessage :: "string option"

datatype sql_value = Text string | Float real

text \<open>The \<^verbatim>\<open>SET\<close> clauses that \<^verbatim>\<open>UpdateJob\<close> appends to
  \<^verbatim>\<open>UPDATE jobs SET updated_at = NOW()\<close>, in the order of the source: one clause for each
  field of the input that is not \<^verbatim>\<open>nil\<close>.\<close>

definition set_clauses :: "UpdateJobInput \<Rightarrow> (string \<times> sql_value) list" where
  "set_clauses input =
     (case set_Status input of None \<Rightarrow> [] | Some s \<Rightarrow> [(''status'', Text s)]) @
     (case set_Progress input of None \<Rightarrow> [] | Some p \<Rightarrow> [(''progress'', Float p)]) @
     (case set_CurrentStep input of None \<Rightarrow> [] | Some s \<Rightarrow> [(''current_step'', Text s)]) @
     (case set_Result input of None \<Rightarrow> [] | Some s \<Rightarrow> [(''result'', Text s)]) @
     (case set_ErrorMessage input of None \<Rightarrow> [] | Some s \<Rightarrow> [(''error_message'', Text s)])"

text \<open>One clause \<^verbatim>\<open>column = value\<close> applied to a row; \<open>None\<close> when the column's type
  refuses the value.\<close>

fun assign :: "pg_types \<Rightarrow> job \<Rightarrow> string \<times> sql_value \<Rightarrow> job option" where
  "assign pg row (c, Text s) =
     (if c = ''status'' then
        (case job_status_of s of None \<Rightarrow> None | Some st \<Rightarrow> Some (row\<lparr>Status := st\<rparr>))
      else if c = ''current_step'' then
        (if is_varchar255 pg s then Some (row\<lparr>CurrentStep := Some s\<rparr>) else None)
      else if c = ''result'' then
        (if is_jsonb pg s then Some (row\<lparr>Result := Some s\<rparr>) else None)
      else if c = ''error_message'' then Some (row\<lparr>ErrorMessage := Some s\<rparr>)
      else None)"
| "assign pg row (c, Float p) =
     (if c = ''progress'' then Some (row\<lparr>Progress := p\<rparr>) else None)"

fun assign_all :: "pg_types \<Rightarrow> job \<Rightarrow> (string \<times> sql_value) list \<Rightarrow> job option" where
  "assign_all pg row [] = Some row"
| "assign_all pg row (a # as) =
     (case assign pg row a of None \<Rightarrow> None | Some row' \<Rightarrow> assign_all pg row' as)"

text \<open>
  \<^verbatim>\<open>UpdateJob\<close>: the statement
  \<^verbatim>\<open>UPDATE jobs SET updated_at = NOW() [, col = $n]* WHERE id = $k RETURNING ...\<close>.
  No row with that id is \<^verbatim>\<open>sql.ErrNoRows\<close> (\<^verbatim>\<open>job not found\<close>); a value that its column
  refuses is the other error; otherwise the row is replaced and returned. \<open>now\<close> is what
  \<^verbatim>\<open>NOW()\<close> reads. There is no other condition on the row: in particular the stored
  status is not consulted.
\<close>

definition UpdateJob ::
  "pg_types \<Rightarrow> db \<Rightarrow> nat \<Rightarrow> string \<Rightarrow> UpdateJobInput \<Rightarrow> error + (db \<times> job)" where
  "UpdateJob pg d now jid input =
     (case jobs d jid of
        None \<Rightarrow> Inl ErrJobNotFound
      | Some row \<Rightarrow>
          (case assign_all pg (row\<lparr>UpdatedAt := now\<rparr>) (set_clauses input) of
             None \<Rightarrow> Inl ErrUpdatingJob
           | Some row' \<Rightarrow> Inr (d\<lparr>jobs := (jobs d)(jid \<mapsto> row')\<rparr>, row')))"

text \<open>\<^verbatim>\<open>Job\<close> (the query): the row with that id, if any.\<close>

definition Job :: "db \<Rightarrow> string \<Rightarrow> error + job" where
  "Job d jid = (case jobs d jid of None \<Rightarrow> Inl ErrJobNotFound | Some row \<Rightarrow> Inr row)"

subsection \<open>Partial updates and histories, for stating the properties\<close>

text \<open>An update input that the column types take: a status that is one of the enum's
  labels, a step that fits \<^verbatim>\<open>VARCHAR(255)\<close>, a result that is JSON.\<close>

definition accepted :: "pg_types \<Rightarrow> UpdateJobInput \<Rightarrow> bool" where
  "accepted pg input \<longleftrightarrow>
     (case set_Status input of None \<Rightarrow> True | Some s \<Rightarrow> job_status_of s \<noteq> None) \<and>
     (case set_CurrentStep input of None \<Rightarrow> True | Some s \<Rightarrow> is_varchar255 pg s) \<and>
     (case set_Result input of None \<Rightarrow> True | Some s \<Rightarrow> is_jsonb pg s)"

text \<open>The partial update in the words of the specification: a supplied field overwrites,
  an absent one is kept, \<^verbatim>\<open>updatedAt\<close> is refreshed. It is compared with \<^const>\<open>UpdateJob\<close>
  in \<open>UpdateJob_eq\<close> below.\<close>

definition updated :: "job \<Rightarrow> nat \<Rightarrow> UpdateJobInput \<Rightarrow> job" where
  "updated row now input =
     row\<lparr>UpdatedAt := now,
         Status := (case set_Status input of None \<Rightarrow> Status row
                    | Some s \<Rightarrow> (case job_status_of s of None \<Rightarrow> Status row | Some st \<Rightarrow> st)),
         Progress := (case set_Progress input of None \<Rightarrow> Progress row | Some p \<Rightarrow> p),
         CurrentStep := (case set_CurrentStep input of None \<Rightarrow> CurrentStep row | Some s \<Rightarrow> Some s),
         Result := (case set_Result input of None \<Rightarrow> Result row | Some s \<Rightarrow> Some s),
         ErrorMessage := (case set_ErrorMessage input of None \<Rightarrow> ErrorMessage row | Some s \<Rightarrow> Some s)\<rparr>"

text \<open>
  A history of the store: creations and updates applied in order, a failed operation leaving
  the store as it was. The result is the final store and the jobs that the successful
  creations returned, oldest first. Rows are not deleted in a job's lifecycle.
\<close>

datatype store_op =
  Create string nat CreateJobInput
| Update nat string UpdateJobInput

fun lifecycle :: "pg_types \<Rightarrow> db \<Rightarrow> store_op list \<Rightarrow> db \<times> job list" where
  "lifecycle pg d [] = (d, [])"
| "lifecycle pg d (Create uuid now input # ops) =
     (case CreateJob pg d uuid now input of
        Inl e \<Rightarrow> lifecycle pg d ops
      | Inr (d', j) \<Rightarrow> (case lifecycle pg d' ops of (d'', js) \<Rightarrow> (d'', j # js)))"
| "lifecycle pg d (Update now jid input # ops) =
     (case UpdateJob pg d now jid input of
        Inl e \<Rightarrow> lifecycle pg d ops
      | Inr (d', j) \<Rightarrow> lifecycle pg d' ops)"

section \<open>Dispatch Queue: the Redis list\<close>

text \<open>
  A dispatch descriptor is a JSON object whose members are texts: the list of its members
  (key, value) in the order in which \<^verbatim>\<open>json.Marshal\<close> and \<^verbatim>\<open>JSON.stringify\<close> write them.
  The Redis server holds a list of descriptors under each key. The two commands used are
  the server's: \<^verbatim>\<open>LPUSH\<close> adds at the head of the list and \<^verbatim>\<open>LLEN\<close> is its length; a
  command sent over a link that is down fails and leaves the server as it was.
\<close>

type_synonym json_object = "(string \<times> string) list"

type_synonym redis = "string \<Rightarrow> json_object list"

definition lPush :: "bool \<Rightarrow> redis \<Rightarrow> string \<Rightarrow> json_object \<Rightarrow> redis option" where
  "lPush link r key v = (if link then Some (r(key := v # r key)) else None)"

definition lLen :: "bool \<Rightarrow> redis \<Rightarrow> string \<Rightarrow> nat option" where
  "lLen link r key = (if link then Some (length (r key)) else None)"

subsection \<open>The backend's producer (Go)\<close>

text \<open>\<^verbatim>\<open>json.Marshal(JobMessage{...})\<close>: the tags \<^verbatim>\<open>job_id\<close>, \<^verbatim>\<open>user_id\<close>, \<^verbatim>\<open>target_date\<close>
  and \<^verbatim>\<open>input_data,omitempty\<close>; the last member is left out when the pointer is \<^verbatim>\<open>nil\<close>.\<close>

definition marshal_JobMessage :: "string \<Rightarrow> string \<Rightarrow> string \<Rightarrow> string option \<Rightarrow> json_object" where
  "marshal_JobMessage jobID userID targetDate inputData =
     [(''job_id'', jobID), (''user_id'', userID), (''target_date'', targetDate)] @
     (case inputData of None \<Rightarrow> [] | Some s \<Rightarrow> [(''input_data'', s)])"

text \<open>The Go \<^verbatim>\<open>Client\<close> wraps a connection that is \<^verbatim>\<open>nil\<close> (\<open>None\<close>) or whose link to the
  server is up or down when the command is sent.\<close>

type_synonym Client = "bool option"

definition AddJobToQueue ::
  "Client \<Rightarrow> redis \<Rightarrow> string \<Rightarrow> string \<Rightarrow> string \<Rightarrow> string option \<Rightarrow> error + redis" where
  "AddJobToQueue c r jobID userID targetDate inputData =
     (case c of
        None \<Rightarrow> Inl ErrRedisNotInitialized
      | Some link \<Rightarrow>
          (let messageJSON = marshal_JobMessage jobID userID targetDate inputData
           in case lPush link r ''commute_jobs'' messageJSON of
                None \<Rightarrow> Inl ErrAddToQueue
              | Some r' \<Rightarrow> Inr r'))"

text \<open>\<^verbatim>\<open>QueueJob\<close> reads the map \<^verbatim>\<open>jobData\<close>; a key that is absent or \<^verbatim>\<open>nil\<close> is \<open>None\<close>.
  The three type assertions on the first keys panic on \<^verbatim>\<open>nil\<close>.\<close>

definition QueueJob :: "Client \<Rightarrow> redis \<Rightarrow> (string \<rightharpoonup> string) \<Rightarrow> error + redis" where
  "QueueJob c r jobData =
     (case jobData ''job_id'' of
        None \<Rightarrow> Inl ErrPanic
      | Some jobID \<Rightarrow>
          (case jobData ''user_id'' of
             None \<Rightarrow> Inl ErrPanic
           | Some userID \<Rightarrow>
               (case jobData ''target_date'' of
                  None \<Rightarrow> Inl ErrPanic
                | Some targetDate \<Rightarrow>
                    (let inputData = jobData ''input_data''
                     in AddJobToQueue c r jobID userID targetDate inputData))))"

text \<open>
  The \<^verbatim>\<open>createJob\<close> branch of the backend's \<^verbatim>\<open>/graphql\<close> handler (\<^verbatim>\<open>cmd/main.go\<close>): the
  variables \<^verbatim>\<open>userId\<close>, \<^verbatim>\<open>targetDate\<close> and \<^verbatim>\<open>inputData\<close> of the request are the
  \<^typ>\<open>CreateJobInput\<close>. When \<^const>\<open>CreateJob\<close> fails the response carries the error and
  nothing is queued. When it succeeds the job is queued with the request's own
  \<^verbatim>\<open>inputData\<close>, and a failure of \<^const>\<open>QueueJob\<close> is only logged: the response carries
  the job either way.
\<close>

definition graphql_createJob ::
  "pg_types \<Rightarrow> Client \<Rightarrow> db \<times> redis \<Rightarrow> string \<Rightarrow> nat \<Rightarrow> CreateJobInput \<Rightarrow>
     (db \<times> redis) \<times> (error + job)" where
  "graphql_createJob pg c s uuid now createInput =
     (case s of (d, r) \<Rightarrow>
        (case CreateJob pg d uuid now createInput of
           Inl err \<Rightarrow> ((d, r), Inl err)
         | Inr (d', job) \<Rightarrow>
             (let jobData = [''job_id'' \<mapsto> ID job, ''user_id'' \<mapsto> UserID job,
                             ''target_date'' \<mapsto> TargetDate job]
                            (''input_data'' := in_InputData createInput)
              in case QueueJob c r jobData of
                   Inl err \<Rightarrow> ((d', r), Inr job)
                 | Inr r' \<Rightarrow> ((d', r'), Inr job))))"

section \<open>The gateway (TypeScript)\<close>

datatype gw_error =
  GraphQLError string string   \<comment> \<open>message and \<^verbatim>\<open>extensions.code\<close>\<close>
| Error string

subsection \<open>RedisService: queue\<close>

text \<open>\<^verbatim>\<open>JSON.stringify(jobData)\<close> for the interface \<^verbatim>\<open>JobData\<close>, which has the three
  members \<^verbatim>\<open>job_id\<close>, \<^verbatim>\<open>user_id\<close> and \<^verbatim>\<open>target_date\<close> and no other.\<close>

definition stringify_JobData :: "string \<Rightarrow> string \<Rightarrow> string \<Rightarrow> json_object" where
  "stringify_JobData job_id user_id target_date =
     [(''job_id'', job_id), (''user_id'', user_id), (''target_date'', target_date)]"

text \<open>\<^verbatim>\<open>pushJob\<close> and \<^verbatim>\<open>getQueueLength\<close>: \<open>redisJobQueue\<close> is \<^verbatim>\<open>config.redisJobQueue\<close> and
  \<open>link\<close> says whether the gateway's connection is up. \<^verbatim>\<open>pushJob\<close> rethrows a failure as
  an \<^verbatim>\<open>Error\<close>; \<^verbatim>\<open>getQueueLength\<close> catches it and returns \<open>0\<close>.\<close>

definition pushJob :: "string \<Rightarrow> bool \<Rightarrow> redis \<Rightarrow> json_object \<Rightarrow> gw_error + redis" where
  "pushJob redisJobQueue link r jobData =
     (case lPush link r redisJobQueue jobData of
        None \<Rightarrow> Inl (Error ''Failed to queue job for processing'')
      | Some r' \<Rightarrow> Inr r')"

definition getQueueLength :: "string \<Rightarrow> bool \<Rightarrow> redis \<Rightarrow> gw_error + nat" where
  "getQueueLength redisJobQueue link r =
     (case lLen link r redisJobQueue of
        None \<Rightarrow> Inr 0
      | Some n \<Rightarrow> Inr n)"

text \<open>The resolver \<^verbatim>\<open>Query.queueStatus\<close>: the pair (length, processing), or the error it
  throws when \<^verbatim>\<open>getQueueLength\<close> throws.\<close>

definition queueStatus :: "string \<Rightarrow> bool \<Rightarrow> redis \<Rightarrow> gw_error + (nat \<times> nat)" where
  "queueStatus redisJobQueue link r =
     (case getQueueLength redisJobQueue link r of
        Inl err \<Rightarrow> Inl (GraphQLError ''Failed to fetch queue status'' ''INTERNAL_ERROR'')
      | Inr len \<Rightarrow> Inr (len, 0))"

subsection \<open>Progress events and the in-process topics\<close>

record JobProgress =
  jobId :: string
  status :: job_status
  progress :: real
  currentStep :: "string option"
  result :: "string option"
  errorMessage :: "string option"
  timestamp :: nat

text \<open>
  Modelled from the spec: the in-process topic bus (section 3, Topic: a named fan-out
  channel with zero or more live subscribers, each of which gets every event published on
  the topic while it is subscribed; a topic without subscribers drops the event). The
  gateway uses the class \<^verbatim>\<open>PubSub\<close> of the library \<^verbatim>\<open>graphql-subscriptions\<close>, which is not
  part of the repository. A bus is the list of its subscriptions, each the topic it
  listens on and the events delivered to it so far, oldest first.
\<close>

type_synonym pubsub = "(string \<times> JobProgress list) list"

definition asyncIterator :: "pubsub \<Rightarrow> string \<Rightarrow> pubsub" where
  "asyncIterator ps topic = ps @ [(topic, [])]"

definition publish :: "pubsub \<Rightarrow> string \<Rightarrow> JobProgress \<Rightarrow> pubsub" where
  "publish ps topic ev = map (\<lambda>(t, got). (t, if t = topic then got @ [ev] else got)) ps"

fun publish_all :: "pubsub \<Rightarrow> (string \<times> JobProgress) list \<Rightarrow> pubsub" where
  "publish_all ps [] = ps"
| "publish_all ps ((topic, ev) # calls) = publish_all (publish ps topic ev) calls"

text \<open>\<^verbatim>\<open>Subscription.jobProgress.subscribe\<close>: a job id that is absent or empty is falsy and
  selects the aggregate topic.\<close>

definition subscribe_jobProgress :: "pubsub \<Rightarrow> string option \<Rightarrow> pubsub" where
  "subscribe_jobProgress ps jobId' =
     (case jobId' of
        None \<Rightarrow> asyncIterator ps ''JOB_PROGRESS''
      | Some j \<Rightarrow> if j \<noteq> [] then asyncIterator ps (''JOB_PROGRESS_'' @ j)
                  else asyncIterator ps ''JOB_PROGRESS'')"

subsection \<open>RedisService: progress listeners and the relay\<close>

text \<open>
  A listener is a callback on a progress event; what it does is the list of
  \<^verbatim>\<open>pubsub.publish\<close> calls it makes, in order. \<^verbatim>\<open>progressListeners\<close> is a
  \<^verbatim>\<open>Map<string, listener>\<close>: one listener for each key.
\<close>

type_synonym listener = "JobProgress \<Rightarrow> (string \<times> JobProgress) list"

definition subscribeToJobProgress ::
  "(string \<rightharpoonup> listener) \<Rightarrow> string \<Rightarrow> listener \<Rightarrow> (string \<rightharpoonup> listener)" where
  "subscribeToJobProgress progressListeners jobId' l = progressListeners(jobId' \<mapsto> l)"

definition subscribeToAllProgress ::
  "(string \<rightharpoonup> listener) \<Rightarrow> listener \<Rightarrow> (string \<rightharpoonup> listener)" where
  "subscribeToAllProgress progressListeners l = progressListeners(''*'' \<mapsto> l)"

definition unsubscribeFromJobProgress ::
  "(string \<rightharpoonup> listener) \<Rightarrow> string \<Rightarrow> (string \<rightharpoonup> listener)" where
  "unsubscribeFromJobProgress progressListeners jobId' = progressListeners(jobId' := None)"

text \<open>
  The callback that \<^verbatim>\<open>connect\<close> registers on the Redis progress channel. The message is
  \<open>None\<close> when \<^verbatim>\<open>JSON.parse\<close> throws (the error is logged and nothing else happens), and
  the parsed event otherwise. The listener under the event's job id is called first, then
  the listener under \<^verbatim>\<open>'*'\<close>.
\<close>

definition on_message ::
  "(string \<rightharpoonup> listener) \<Rightarrow> JobProgress option \<Rightarrow> (string \<times> JobProgress) list" where
  "on_message progressListeners message =
     (case message of
        None \<Rightarrow> []
      | Some ev \<Rightarrow>
          (case progressListeners (jobId ev) of None \<Rightarrow> [] | Some l \<Rightarrow> l ev) @
          (case progressListeners ''*'' of None \<Rightarrow> [] | Some g \<Rightarrow> g ev))"

text \<open>\<^verbatim>\<open>startServer\<close>: the listener it passes to \<^verbatim>\<open>subscribeToAllProgress\<close> on the fresh
  \<^verbatim>\<open>RedisService\<close>, and the listeners registered from then on.\<close>

definition relay :: listener where
  "relay ev = [(''JOB_PROGRESS_'' @ jobId ev, ev), (''JOB_PROGRESS'', ev)]"

definition startServer :: "string \<rightharpoonup> listener" where
  "startServer = subscribeToAllProgress Map.empty relay"

subsection \<open>createCommuteJob\<close>

record CreateCommuteJobInput =
  userId :: string
  targetDate :: string
  inputData :: "string option"

text \<open>
  What surrounds a call: the gateway's queue name, whether the gateway's Redis connection
  and its HTTP link to the backend are up, and the backend's Redis client. \<open>world\<close> is what
  the call can change: the database, the Redis server and the in-process bus.
\<close>

record env =
  redisJobQueue :: string
  gateway_redis :: bool
  backend_http :: bool
  backend_redis :: Client

record world =
  store :: db
  redis_server :: redis
  bus :: pubsub

text \<open>\<^verbatim>\<open>BackendService.createJob\<close>: the mutation is posted to the backend's \<^verbatim>\<open>/graphql\<close>
  handler, that is \<^const>\<open>graphql_createJob\<close>; a failed request or a response with errors is
  thrown as an \<^verbatim>\<open>Error\<close>. The job of the response is the job the handler returned, read
  back field by field.\<close>

definition backend_createJob ::
  "pg_types \<Rightarrow> env \<Rightarrow> world \<Rightarrow> string \<Rightarrow> nat \<Rightarrow> CreateCommuteJobInput \<Rightarrow>
     world \<times> (gw_error + job)" where
  "backend_createJob pg e w uuid now input =
     (if \<not> backend_http e then (w, Inl (Error ''fetch failed''))
      else
        (case graphql_createJob pg (backend_redis e) (store w, redis_server w) uuid now
                \<lparr>in_UserID = userId input, in_TargetDate = targetDate input,
                 in_InputData = inputData input\<rparr> of
           ((d', r'), Inl err) \<Rightarrow>
             (w\<lparr>store := d', redis_server := r'\<rparr>, Inl (Error ''Backend GraphQL error''))
         | ((d', r'), Inr job) \<Rightarrow> (w\<lparr>store := d', redis_server := r'\<rparr>, Inr job)))"

text \<open>The \<^verbatim>\<open>catch\<close> of \<^verbatim>\<open>createCommuteJob\<close>: a \<^verbatim>\<open>GraphQLError\<close> is rethrown, anything else
  becomes the one generic error.\<close>

definition catch_createCommuteJob :: "gw_error \<Rightarrow> gw_error" where
  "catch_createCommuteJob err =
     (case err of
        GraphQLError m c \<Rightarrow> GraphQLError m c
      | Error m \<Rightarrow> GraphQLError ''Failed to create commute job'' ''INTERNAL_ERROR'')"

text \<open>
  \<^verbatim>\<open>Mutation.createCommuteJob\<close>: validate, create the job through the backend, push the
  descriptor, publish the initial progress on \<^verbatim>\<open>'JOB_PROGRESS'\<close>, return the job. \<open>uuid\<close>
  and \<open>now\<close> are the backend's draws, \<open>ts\<close> is the gateway's \<^verbatim>\<open>new Date()\<close>.
\<close>

definition createCommuteJob ::
  "pg_types \<Rightarrow> env \<Rightarrow> world \<Rightarrow> string \<Rightarrow> nat \<Rightarrow> nat \<Rightarrow> CreateCommuteJobInput \<Rightarrow>
     world \<times> (gw_error + job)" where
  "createCommuteJob pg e w uuid now ts input =
     (if userId input = [] \<or> targetDate input = [] then
        (w, Inl (catch_createCommuteJob
                   (GraphQLError ''userId and targetDate are required'' ''BAD_USER_INPUT'')))
      else
        (case backend_createJob pg e w uuid now input of
           (w1, Inl err) \<Rightarrow> (w1, Inl (catch_createCommuteJob err))
         | (w1, Inr job) \<Rightarrow>
             (case pushJob (redisJobQueue e) (gateway_redis e) (redis_server w1)
                     (stringify_JobData (ID job) (UserID job) (TargetDate job)) of
                Inl err \<Rightarrow> (w1, Inl (catch_createCommuteJob err))
              | Inr r' \<Rightarrow>
                  (let initialProgress =
                         \<lparr>jobId = ID job, status = PENDING, progress = 0,
                          currentStep = Some ''Queued for processing'', result = None,
                          errorMessage = None, timestamp = ts\<rparr>
                   in (w1\<lparr>redis_server := r',
                          bus := publish (bus w1) ''JOB_PROGRESS'' initialProgress\<rparr>,
                       Inr job)))))"

text \<open>The initial progress event that \<^verbatim>\<open>createCommuteJob\<close> builds for job \<open>j\<close> at time
  \<open>ts\<close>, for stating the properties.\<close>

definition initial_event :: "string \<Rightarrow> nat \<Rightarrow> JobProgress" where
  "initial_event j ts = \<lparr>jobId = j, status = PENDING, progress = 0,
     currentStep = Some ''Queued for processing'', result = None, errorMessage = None,
     timestamp = ts\<rparr>"

section \<open>Sample data\<close>

text \<open>A concrete choice of the column types and the rows of the repository's seed data
  (\<^verbatim>\<open>INSERT INTO users\<close>, \<^verbatim>\<open>INSERT INTO jobs\<close>) that the examples below run on.\<close>

definition example_pg :: pg_types where
  "example_pg = \<lparr>is_date = (\<lambda>s. length s = 10), is_jsonb = (\<lambda>s. s \<noteq> []),
                  is_varchar255 = (\<lambda>s. length s \<le> 255)\<rparr>"

definition sample_job :: job where
  "sample_job = \<lparr>ID = ''650e8400-e29b-41d4-a716-446655440002'',
     UserID = ''550e8400-e29b-41d4-a716-446655440002'', Status = COMPLETED, Progress = 1,
     CurrentStep = Some ''Analysis complete'', TargetDate = ''2025-08-12'',
     InputData = Some ''{}'', Result = None, ErrorMessage = None,
     CreatedAt = 10, UpdatedAt = 20\<rparr>"

definition sample_db :: db where
  "sample_db = \<lparr>users = {''550e8400-e29b-41d4-a716-446655440001'',
                           ''550e8400-e29b-41d4-a716-446655440002''},
                 jobs = [''650e8400-e29b-41d4-a716-446655440002'' \<mapsto> sample_job]\<rparr>"

definition sample_request :: CreateJobInput where
  "sample_request = \<lparr>in_UserID = ''550e8400-e29b-41d4-a716-446655440001'',
     in_TargetDate = ''2025-08-15'', in_InputData = None\<rparr>"

definition created_job :: "string \<Rightarrow> nat \<Rightarrow> job" where
  "created_job uuid now = \<lparr>ID = uuid, UserID = ''550e8400-e29b-41d4-a716-446655440001'',
     Status = PENDING, Progress = 0, CurrentStep = None, TargetDate = ''2025-08-15'',
     InputData = None, Result = None, ErrorMessage = None, CreatedAt = now, UpdatedAt = now\<rparr>"

definition progress_update :: UpdateJobInput where
  "progress_update = \<lparr>set_Status = Some ''IN_PROGRESS'', set_Progress = Some (3 / 10),
     set_CurrentStep = None, set_Result = None, set_ErrorMessage = None\<rparr>"

definition bogus_update :: UpdateJobInput where
  "bogus_update = \<lparr>set_Status = Some ''DONE'', set_Progress = Some (1 / 2),
     set_CurrentStep = None, set_Result = None, set_ErrorMessage = None\<rparr>"



text \<open>A submission through the gateway for the first seed user, the job and the two
  descriptors it gives rise to, an environment in which every link is up, a world with the
  seed database, an empty Redis server and two subscriptions (one to the topic of job
  \<^verbatim>\<open>aaa\<close>, one to the aggregate topic), a progress event of the first seed job, and two
  listeners that can be told apart.\<close>

definition sample_input :: CreateCommuteJobInput where
  "sample_input = \<lparr>userId = ''550e8400-e29b-41d4-a716-446655440001'',
     targetDate = ''2025-08-15'', inputData = Some ''{}''\<rparr>"

definition queued_job :: job where
  "queued_job = \<lparr>ID = ''aaa'', UserID = ''550e8400-e29b-41d4-a716-446655440001'',
     Status = PENDING, Progress = 0, CurrentStep = None, TargetDate = ''2025-08-15'',
     InputData = Some ''{}'', Result = None, ErrorMessage = None, CreatedAt = 30,
     UpdatedAt = 30\<rparr>"

definition backend_descriptor :: json_object where
  "backend_descriptor = [(''job_id'', ''aaa''),
     (''user_id'', ''550e8400-e29b-41d4-a716-446655440001''),
     (''target_date'', ''2025-08-15''), (''input_data'', ''{}'')]"

definition gateway_descriptor :: json_object where
  "gateway_descriptor = [(''job_id'', ''aaa''),
     (''user_id'', ''550e8400-e29b-41d4-a716-446655440001''),
     (''target_date'', ''2025-08-15'')]"

definition all_up :: env where
  "all_up = \<lparr>redisJobQueue = ''commute_jobs'', gateway_redis = True, backend_http = True,
              backend_redis = Some True\<rparr>"

definition sample_world :: world where
  "sample_world = \<lparr>store = sample_db, redis_server = (\<lambda>key. []),
     bus = subscribe_jobProgress (subscribe_jobProgress [] (Some ''aaa'')) None\<rparr>"

definition sample_event :: JobProgress where
  "sample_event = \<lparr>jobId = ''650e8400-e29b-41d4-a716-446655440001'', status = IN_PROGRESS,
     progress = 3 / 10, currentStep = Some ''Analyzing calendar events'', result = None,
     errorMessage = None, timestamp = 50\<rparr>"

definition two_subscribers :: pubsub where
  "two_subscribers = subscribe_jobProgress (subscribe_jobProgress [] (Some ''aaa'')) None"

definition first_listener :: listener where
  "first_listener ev = [(''first'', ev)]"

definition second_listener :: listener where
  "second_listener ev = [(''second'', ev)]"

section \<open>Properties of the Job Store\<close>

subsection \<open>UpdateJob is the partial update\<close>

lemma assign_all_append:
  "assign_all pg row (xs @ ys) =
     (case assign_all pg row xs of None \<Rightarrow> None | Some row' \<Rightarrow> assign_all pg row' ys)"
  by (induction xs arbitrary: row) (auto split: option.splits)

lemma assign_all_set_clauses:
  "assign_all pg (row\<lparr>UpdatedAt := now\<rparr>) (set_clauses input) =
     (if accepted pg input then Some (updated row now input) else None)"
  unfolding set_clauses_def accepted_def updated_def
  by (cases "set_Status input"; cases "set_Progress input"; cases "set_CurrentStep input";
      cases "set_Result input"; cases "set_ErrorMessage input")
     (auto split: option.splits)

lemma UpdateJob_eq:
  "UpdateJob pg d now jid input =
     (case jobs d jid of None \<Rightarrow> Inl ErrJobNotFound
      | Some row \<Rightarrow> if accepted pg input
          then Inr (d\<lparr>jobs := (jobs d)(jid \<mapsto> updated row now input)\<rparr>, updated row now input)
          else Inl ErrUpdatingJob)"
  by (simp add: UpdateJob_def assign_all_set_clauses split: option.splits)

lemma UpdateJob_Inr:
  "UpdateJob pg d now jid input = Inr (d', j) \<Longrightarrow>
     \<exists>row. jobs d jid = Some row \<and> d' = d\<lparr>jobs := (jobs d)(jid \<mapsto> j)\<rparr>"
  by (auto simp: UpdateJob_eq split: if_splits option.splits)

lemma sample_db_job: "jobs sample_db ''650e8400-e29b-41d4-a716-446655440002'' = Some sample_job"
  by (simp add: sample_db_def)

lemma accepted_progress_update: "accepted example_pg progress_update"
  by (simp add: accepted_def progress_update_def job_status_of_def)

text \<open>
  Claim C7, as the code has it. For a job id that exists and an update input whose supplied
  values the column types take, \<^const>\<open>UpdateJob\<close> succeeds, replaces that one row, overwrites
  exactly the fields that the input supplies (status, progress, current step, result, error
  message), keeps every field that the input leaves absent and the fields id, user id,
  target date, input data and creation time, and sets the update time to the current time.
  For an input with a supplied value that its column refuses, \<^const>\<open>UpdateJob\<close> fails with the
  update error and returns no new store: the row, its update time included, stays as it was.
\<close>

theorem UpdateJob_partial_update:
  assumes "jobs d jid = Some row"
  shows "(accepted pg input \<longrightarrow>
     (\<exists>row'. UpdateJob pg d now jid input = Inr (d\<lparr>jobs := (jobs d)(jid \<mapsto> row')\<rparr>, row') \<and>
     ID row' = ID row \<and> UserID row' = UserID row \<and> TargetDate row' = TargetDate row \<and>
     InputData row' = InputData row \<and> CreatedAt row' = CreatedAt row \<and> UpdatedAt row' = now \<and>
     (case set_Status input of None \<Rightarrow> Status row' = Status row
      | Some s \<Rightarrow> job_status_of s = Some (Status row')) \<and>
     (case set_Progress input of None \<Rightarrow> Progress row' = Progress row
      | Some p \<Rightarrow> Progress row' = p) \<and>
     (case set_CurrentStep input of None \<Rightarrow> CurrentStep row' = CurrentStep row
      | Some s \<Rightarrow> CurrentStep row' = Some s) \<and>
     (case set_Result input of None \<Rightarrow> Result row' = Result row
      | Some s \<Rightarrow> Result row' = Some s) \<and>
     (case set_ErrorMessage input of None \<Rightarrow> ErrorMessage row' = ErrorMessage row
      | Some s \<Rightarrow> ErrorMessage row' = Some s))) \<and>
    (\<not> accepted pg input \<longrightarrow> UpdateJob pg d now jid input = Inl ErrUpdatingJob)"
proof (intro conjI impI)
  assume a: "accepted pg input"
  have "UpdateJob pg d now jid input =
      Inr (d\<lparr>jobs := (jobs d)(jid \<mapsto> updated row now input)\<rparr>, updated row now input)"
    using assms a by (simp add: UpdateJob_eq)
  moreover have "case set_Status input of None \<Rightarrow> Status (updated row now input) = Status row
      | Some s \<Rightarrow> job_status_of s = Some (Status (updated row now input))"
    using a by (auto simp: updated_def accepted_def split: option.splits)
  ultimately show "\<exists>row'. UpdateJob pg d now jid input = Inr (d\<lparr>jobs := (jobs d)(jid \<mapsto> row')\<rparr>, row') \<and>
     ID row' = ID row \<and> UserID row' = UserID row \<and> TargetDate row' = TargetDate row \<and>
     InputData row' = InputData row \<and> CreatedAt row' = CreatedAt row \<and> UpdatedAt row' = now \<and>
     (case set_Status input of None \<Rightarrow> Status row' = Status row
      | Some s \<Rightarrow> job_status_of s = Some (Status row')) \<and>
     (case set_Progress input of None \<Rightarrow> Progress row' = Progress row
      | Some p \<Rightarrow> Progress row' = p) \<and>
     (case set_CurrentStep input of None \<Rightarrow> CurrentStep row' = CurrentStep row
      | Some s \<Rightarrow> CurrentStep row' = Some s) \<and>
     (case set_Result input of None \<Rightarrow> Result row' = Result row
      | Some s \<Rightarrow> Result row' = Some s) \<and>
     (case set_ErrorMessage input of None \<Rightarrow> ErrorMessage row' = ErrorMessage row
      | Some s \<Rightarrow> ErrorMessage row' = Some s)"
    by (intro exI[of _ "updated row now input"]) (simp add: updated_def split: option.splits)
next
  assume "\<not> accepted pg input"
  with assms show "UpdateJob pg d now jid input = Inl ErrUpdatingJob"
    by (simp add: UpdateJob_eq)
qed

theorem UpdateJob_partial_update_witness:
  "UpdateJob example_pg sample_db 40 ''650e8400-e29b-41d4-a716-446655440002'' progress_update =
     Inr (sample_db\<lparr>jobs := (jobs sample_db)(''650e8400-e29b-41d4-a716-446655440002'' \<mapsto>
            sample_job\<lparr>Status := IN_PROGRESS, Progress := 3 / 10, UpdatedAt := 40\<rparr>)\<rparr>,
          sample_job\<lparr>Status := IN_PROGRESS, Progress := 3 / 10, UpdatedAt := 40\<rparr>)"
proof -
  from UpdateJob_partial_update[OF sample_db_job, of example_pg progress_update 40,
      THEN conjunct1, rule_format, OF accepted_progress_update]
  obtain row' where r:
    "UpdateJob example_pg sample_db 40 ''650e8400-e29b-41d4-a716-446655440002'' progress_update =
       Inr (sample_db\<lparr>jobs := (jobs sample_db)(''650e8400-e29b-41d4-a716-446655440002'' \<mapsto> row')\<rparr>, row')"
    "ID row' = ID sample_job" "UserID row' = UserID sample_job"
    "TargetDate row' = TargetDate sample_job" "InputData row' = InputData sample_job"
    "CreatedAt row' = CreatedAt sample_job" "UpdatedAt row' = 40"
    "job_status_of ''IN_PROGRESS'' = Some (Status row')" "Progress row' = 3 / 10"
    "CurrentStep row' = CurrentStep sample_job" "Result row' = Result sample_job"
    "ErrorMessage row' = ErrorMessage sample_job"
    by (auto simp: progress_update_def)
  from r(8) have s: "Status row' = IN_PROGRESS" by (simp add: job_status_of_def)
  have "row' = sample_job\<lparr>Status := IN_PROGRESS, Progress := 3 / 10, UpdatedAt := 40\<rparr>"
    using r(2-7) r(9-12) s by (cases row') (simp add: sample_job_def)
  with r(1) show ?thesis by simp
qed

text \<open>
  The claim as the specification words it fails: an update of the seed job with the input
  \<^verbatim>\<open>{status: "DONE", progress: 0.5}\<close> is refused, since \<^verbatim>\<open>DONE\<close> is no label of the enum; the
  supplied progress is not written and the update time is not refreshed.
\<close>

theorem UpdateJob_partial_update_counterexample:
  "Job sample_db ''650e8400-e29b-41d4-a716-446655440002'' = Inr sample_job \<and>
   set_Progress bogus_update = Some (1 / 2) \<and>
   UpdateJob example_pg sample_db 40 ''650e8400-e29b-41d4-a716-446655440002'' bogus_update =
     Inl ErrUpdatingJob \<and>
   Progress sample_job = 1 \<and> UpdatedAt sample_job = 20"
  by (simp add: Job_def sample_db_job UpdateJob_def set_clauses_def bogus_update_def
      job_status_of_def)
    (simp add: sample_job_def)

subsection \<open>Terminal states\<close>




subsection \<open>CreateJob\<close>

lemma CreateJob_Inr:
  "CreateJob pg d uuid now input = Inr (d', j) \<Longrightarrow>
     jobs d uuid = None \<and> ID j = uuid \<and> Status j = PENDING \<and> Progress j = 0 \<and>
     d' = d\<lparr>jobs := (jobs d)(uuid \<mapsto> j)\<rparr>"
  by (auto simp: CreateJob_def insert_job_def Let_def split: if_splits option.splits)

lemma CreateJob_succeeds:
  assumes "jobs d uuid = None" and "in_UserID input \<in> users d"
    and "is_date pg (in_TargetDate input)"
    and "case in_InputData input of None \<Rightarrow> True | Some s \<Rightarrow> s = [] \<or> is_jsonb pg s"
  shows "\<exists>d' j. CreateJob pg d uuid now input = Inr (d', j)"
  using assms by (auto simp: CreateJob_def insert_job_def Let_def split: option.splits)

lemma CreateJob_sample:
  "jobs d uuid = None \<Longrightarrow> ''550e8400-e29b-41d4-a716-446655440001'' \<in> users d \<Longrightarrow>
   CreateJob example_pg d uuid now sample_request =
     Inr (d\<lparr>jobs := (jobs d)(uuid \<mapsto> created_job uuid now)\<rparr>, created_job uuid now)"
  by (simp add: CreateJob_def insert_job_def example_pg_def sample_request_def created_job_def
      Let_def)

lemma lifecycle_ids:
  "lifecycle pg d ops = (d', js) \<Longrightarrow>
     dom (jobs d) \<subseteq> dom (jobs d') \<and> ID ` set js \<subseteq> dom (jobs d') \<and>
     ID ` set js \<inter> dom (jobs d) = {} \<and> distinct (map ID js) \<and>
     (\<forall>j\<in>set js. Status j = PENDING \<and> Progress j = 0)"
proof (induction pg d ops arbitrary: d' js rule: lifecycle.induct)
  case (1 pg d)
  then show ?case by simp
next
  case (2 pg d uuid now input ops)
  show ?case
  proof (cases "CreateJob pg d uuid now input")
    case (Inl e)
    with 2 show ?thesis by simp
  next
    case (Inr p)
    obtain d1 j where p: "p = (d1, j)" by (cases p)
    obtain d2 js2 where r: "lifecycle pg d1 ops = (d2, js2)" by (cases "lifecycle pg d1 ops")
    from Inr p have c: "CreateJob pg d uuid now input = Inr (d1, j)" by simp
    from CreateJob_Inr[OF c] have f: "jobs d uuid = None" "ID j = uuid" "Status j = PENDING"
      "Progress j = 0" "d1 = d\<lparr>jobs := (jobs d)(uuid \<mapsto> j)\<rparr>" by auto
    from "2.prems" c r have e: "d' = d2" "js = j # js2" by auto
    from "2.IH"(2)[OF c refl r] have ih:
      "dom (jobs d1) \<subseteq> dom (jobs d2)" "ID ` set js2 \<subseteq> dom (jobs d2)"
      "ID ` set js2 \<inter> dom (jobs d1) = {}" "distinct (map ID js2)"
      "\<forall>j\<in>set js2. Status j = PENDING \<and> Progress j = 0" by auto
    from f have d1: "dom (jobs d1) = insert uuid (dom (jobs d))" by auto
    show ?thesis using e ih f(1-4) d1 by auto
  qed
next
  case (3 pg d now jid input ops)
  show ?case
  proof (cases "UpdateJob pg d now jid input")
    case (Inl e)
    with 3 show ?thesis by simp
  next
    case (Inr p)
    obtain d1 j where p: "p = (d1, j)" by (cases p)
    from Inr p have c: "UpdateJob pg d now jid input = Inr (d1, j)" by simp
    from UpdateJob_Inr[OF c] have d1: "dom (jobs d1) = dom (jobs d)" by auto
    from "3.prems" c have r: "lifecycle pg d1 ops = (d', js)" by simp
    from "3.IH"(2)[OF c refl r] d1 show ?thesis by simp
  qed
qed

text \<open>
  Claim C4. After any history of creations and updates, a creation with an owner that
  exists, a target date that is a date and input data that is absent, empty or JSON
  succeeds whenever the drawn id is not in the table; and every job that a creation returns
  has status \<open>PENDING\<close>, progress \<open>0\<close> and the drawn id, which is the id of no row of the
  table and of no job that an earlier creation returned (a draw that collides is refused by
  the primary key).
\<close>

theorem CreateJob_pending_fresh:
  assumes "lifecycle pg d ops = (d1, earlier)"
  shows "(\<forall>d2 j. CreateJob pg d1 uuid now input = Inr (d2, j) \<longrightarrow>
            Status j = PENDING \<and> Progress j = 0 \<and> ID j = uuid \<and>
            ID j \<notin> ID ` set earlier \<and> jobs d1 (ID j) = None \<and>
            jobs d2 = (jobs d1)(ID j \<mapsto> j) \<and> distinct (map ID (earlier @ [j]))) \<and>
         (jobs d1 uuid = None \<and> in_UserID input \<in> users d1 \<and>
          is_date pg (in_TargetDate input) \<and>
          (case in_InputData input of None \<Rightarrow> True | Some s \<Rightarrow> s = [] \<or> is_jsonb pg s) \<longrightarrow>
            (\<exists>d2 j. CreateJob pg d1 uuid now input = Inr (d2, j)))"
proof (intro conjI allI impI)
  fix d2 j
  assume c: "CreateJob pg d1 uuid now input = Inr (d2, j)"
  from CreateJob_Inr[OF c] have f: "jobs d1 uuid = None" "ID j = uuid"
    "Status j = PENDING" "Progress j = 0" "d2 = d1\<lparr>jobs := (jobs d1)(uuid \<mapsto> j)\<rparr>" by auto
  from lifecycle_ids[OF assms] have l: "ID ` set earlier \<subseteq> dom (jobs d1)"
    "distinct (map ID earlier)" by auto
  from f(1) l(1) have n: "uuid \<notin> ID ` set earlier" by auto
  show "Status j = PENDING" "Progress j = 0" "ID j = uuid" "ID j \<notin> ID ` set earlier"
    "jobs d1 (ID j) = None" "jobs d2 = (jobs d1)(ID j \<mapsto> j)"
    "distinct (map ID (earlier @ [j]))"
    using f l(2) n by auto
next
  assume "jobs d1 uuid = None \<and> in_UserID input \<in> users d1 \<and>
          is_date pg (in_TargetDate input) \<and>
          (case in_InputData input of None \<Rightarrow> True | Some s \<Rightarrow> s = [] \<or> is_jsonb pg s)"
  then show "\<exists>d2 j. CreateJob pg d1 uuid now input = Inr (d2, j)"
    by (intro CreateJob_succeeds) simp_all
qed

theorem CreateJob_pending_fresh_witness:
  "lifecycle example_pg sample_db [Create ''aaa'' 30 sample_request] =
     (sample_db\<lparr>jobs := (jobs sample_db)(''aaa'' \<mapsto> created_job ''aaa'' 30)\<rparr>,
      [created_job ''aaa'' 30]) \<and>
   CreateJob example_pg (sample_db\<lparr>jobs := (jobs sample_db)(''aaa'' \<mapsto> created_job ''aaa'' 30)\<rparr>)
       ''bbb'' 31 sample_request =
     Inr (sample_db\<lparr>jobs := (jobs sample_db)(''aaa'' \<mapsto> created_job ''aaa'' 30,
                                               ''bbb'' \<mapsto> created_job ''bbb'' 31)\<rparr>,
          created_job ''bbb'' 31) \<and>
   Status (created_job ''bbb'' 31) = PENDING \<and> Progress (created_job ''bbb'' 31) = 0 \<and>
   ID (created_job ''bbb'' 31) \<notin> ID ` set [created_job ''aaa'' 30]"
proof -
  have a: "lifecycle example_pg sample_db [Create ''aaa'' 30 sample_request] =
     (sample_db\<lparr>jobs := (jobs sample_db)(''aaa'' \<mapsto> created_job ''aaa'' 30)\<rparr>,
      [created_job ''aaa'' 30])"
    by (simp add: CreateJob_sample sample_db_def)
  have b: "CreateJob example_pg (sample_db\<lparr>jobs := (jobs sample_db)(''aaa'' \<mapsto> created_job ''aaa'' 30)\<rparr>)
       ''bbb'' 31 sample_request =
     Inr (sample_db\<lparr>jobs := (jobs sample_db)(''aaa'' \<mapsto> created_job ''aaa'' 30,
                                               ''bbb'' \<mapsto> created_job ''bbb'' 31)\<rparr>,
          created_job ''bbb'' 31)"
    by (simp add: CreateJob_sample sample_db_def)
  note t = CreateJob_pending_fresh[OF a, of "''bbb''" 31 sample_request]
  from t[THEN conjunct1, rule_format, OF b]
  have "Status (created_job ''bbb'' 31) = PENDING" "Progress (created_job ''bbb'' 31) = 0"
    "ID (created_job ''bbb'' 31) \<notin> ID ` set [created_job ''aaa'' 30]"
    by blast+
  with a b show ?thesis by blast
qed

section \<open>Properties of the queue, the relay and the gateway\<close>

subsection \<open>Queue length\<close>

text \<open>
  Claim C10. When the gateway's Redis connection is down, \<^const>\<open>getQueueLength\<close> returns \<open>0\<close>
  and raises nothing: the same result as on a server that is reachable and whose queue is
  empty, and the resolver \<^const>\<open>queueStatus\<close> reports length \<open>0\<close>.
\<close>

theorem getQueueLength_unreachable:
  "getQueueLength q False r = Inr 0 \<and>
   getQueueLength q False r = getQueueLength q True (r(q := [])) \<and>
   queueStatus q False r = Inr (0, 0)"
  by (simp add: getQueueLength_def queueStatus_def lLen_def)

subsection \<open>The relay\<close>

lemma on_message_startServer:
  "on_message startServer (Some ev) =
     (if jobId ev = ''*'' then relay ev @ relay ev else relay ev)"
  by (simp add: on_message_def startServer_def subscribeToAllProgress_def)

text \<open>
  Claim C5. With the listeners that \<^const>\<open>startServer\<close> registers, a message that does not parse
  is dropped, and every parsed progress event is published, unchanged, on the topic
  \<^verbatim>\<open>JOB_PROGRESS_<jobId>\<close> of its job and on the aggregate topic \<^verbatim>\<open>JOB_PROGRESS\<close>, and on no
  other topic; when the job id is not the text \<^verbatim>\<open>*\<close> there is exactly one publish call for
  each of the two topics, the per-job topic first.
\<close>

theorem relay_republishes:
  "on_message startServer None = [] \<and>
   set (on_message startServer (Some ev)) =
     {(''JOB_PROGRESS_'' @ jobId ev, ev), (''JOB_PROGRESS'', ev)} \<and>
   (jobId ev \<noteq> ''*'' \<longrightarrow>
      on_message startServer (Some ev) =
        [(''JOB_PROGRESS_'' @ jobId ev, ev), (''JOB_PROGRESS'', ev)])"
proof (intro conjI impI)
  show "on_message startServer None = []" by (simp add: on_message_def)
  show "set (on_message startServer (Some ev)) =
     {(''JOB_PROGRESS_'' @ jobId ev, ev), (''JOB_PROGRESS'', ev)}"
    by (auto simp: on_message_startServer relay_def)
  assume "jobId ev \<noteq> ''*''"
  then show "on_message startServer (Some ev) =
        [(''JOB_PROGRESS_'' @ jobId ev, ev), (''JOB_PROGRESS'', ev)]"
    by (simp add: on_message_startServer relay_def)
qed

theorem relay_republishes_witness:
  "jobId sample_event \<noteq> ''*'' \<and>
   on_message startServer (Some sample_event) =
     [(''JOB_PROGRESS_650e8400-e29b-41d4-a716-446655440001'', sample_event),
      (''JOB_PROGRESS'', sample_event)]"
proof -
  have j: "jobId sample_event = ''650e8400-e29b-41d4-a716-446655440001''"
    by (simp add: sample_event_def)
  then have n: "jobId sample_event \<noteq> ''*''" by simp
  from relay_republishes[of sample_event, THEN conjunct2, THEN conjunct2, rule_format, OF n] j n
  show ?thesis by simp
qed

text \<open>
  The listener map itself keeps one listener for a key: a second
  \<^const>\<open>subscribeToJobProgress\<close> for the same job id replaces the first. \<^verbatim>\<open>startServer\<close> registers
  only the relay, once, under \<^verbatim>\<open>'*'\<close>; the clients subscribe on the bus, below.
\<close>

lemma subscribeToJobProgress_overwrites:
  "on_message (subscribeToJobProgress Map.empty (jobId sample_event) first_listener)
     (Some sample_event) = [(''first'', sample_event)] \<and>
   on_message
     (subscribeToJobProgress
        (subscribeToJobProgress Map.empty (jobId sample_event) first_listener)
        (jobId sample_event) second_listener)
     (Some sample_event) = [(''second'', sample_event)]"
  by (simp add: on_message_def subscribeToJobProgress_def first_listener_def
      second_listener_def)
    (simp add: sample_event_def)

subsection \<open>Subscriptions on the bus\<close>

lemma publish_nth:
  "i < length ps \<Longrightarrow>
     publish ps topic ev ! i =
       (fst (ps ! i), if fst (ps ! i) = topic then snd (ps ! i) @ [ev] else snd (ps ! i))"
  by (simp add: publish_def split: prod.splits)

lemma subscribe_jobProgress_eq:
  "subscribe_jobProgress ps j =
     ps @ [(case j of None \<Rightarrow> ''JOB_PROGRESS''
            | Some k \<Rightarrow> if k \<noteq> [] then ''JOB_PROGRESS_'' @ k else ''JOB_PROGRESS'', [])]"
  by (simp add: subscribe_jobProgress_def asyncIterator_def split: option.splits)

text \<open>
  Claim C3. \<^verbatim>\<open>Subscription.jobProgress.subscribe\<close> adds one subscription to the bus, on the
  aggregate topic or on the topic of the job id it is given, and leaves every subscription
  that is already there in place, whatever its topic and however many there are. An event
  published afterwards on a topic is delivered to every earlier subscription on that topic
  as it would have been without the addition, and to the new subscription when its topic
  is that topic.
\<close>

theorem subscribe_jobProgress_keeps_subscribers:
  "\<exists>t. subscribe_jobProgress ps j = ps @ [(t, [])] \<and>
       t = (case j of None \<Rightarrow> ''JOB_PROGRESS''
            | Some k \<Rightarrow> if k \<noteq> [] then ''JOB_PROGRESS_'' @ k else ''JOB_PROGRESS'') \<and>
       (\<forall>topic ev.
          publish (subscribe_jobProgress ps j) topic ev =
            publish ps topic ev @ [(t, if t = topic then [ev] else [])]) \<and>
       (\<forall>topic ev i. i < length ps \<longrightarrow>
          publish (subscribe_jobProgress ps j) topic ev ! i =
            (fst (ps ! i),
             if fst (ps ! i) = topic then snd (ps ! i) @ [ev] else snd (ps ! i)))"
proof -
  let ?t = "case j of None \<Rightarrow> ''JOB_PROGRESS''
            | Some k \<Rightarrow> if k \<noteq> [] then ''JOB_PROGRESS_'' @ k else ''JOB_PROGRESS''"
  have s: "subscribe_jobProgress ps j = ps @ [(?t, [])]" by (rule subscribe_jobProgress_eq)
  have p: "\<And>topic ev. publish (ps @ [(?t, [])]) topic ev =
            publish ps topic ev @ [(?t, if ?t = topic then [ev] else [])]"
    by (simp add: publish_def)
  have l: "\<And>topic ev. length (publish ps topic ev) = length ps" by (simp add: publish_def)
  have n: "\<And>topic ev i. i < length ps \<Longrightarrow>
          publish (ps @ [(?t, [])]) topic ev ! i =
            (fst (ps ! i),
             if fst (ps ! i) = topic then snd (ps ! i) @ [ev] else snd (ps ! i))"
    by (simp add: p nth_append l publish_nth)
  show ?thesis
  proof (intro exI[of _ ?t] conjI allI impI)
    show "subscribe_jobProgress ps j = ps @ [(?t, [])]" by (rule s)
    show "?t = ?t" by (rule refl)
    fix topic ev
    show "publish (subscribe_jobProgress ps j) topic ev =
            publish ps topic ev @ [(?t, if ?t = topic then [ev] else [])]"
      unfolding s by (rule p)
    fix i
    assume "i < length ps"
    then show "publish (subscribe_jobProgress ps j) topic ev ! i =
            (fst (ps ! i),
             if fst (ps ! i) = topic then snd (ps ! i) @ [ev] else snd (ps ! i))"
      unfolding s by (rule n)
  qed
qed

theorem subscribe_jobProgress_keeps_subscribers_witness:
  "two_subscribers = [(''JOB_PROGRESS_aaa'', []), (''JOB_PROGRESS'', [])] \<and>
   subscribe_jobProgress two_subscribers (Some ''aaa'') =
     [(''JOB_PROGRESS_aaa'', []), (''JOB_PROGRESS'', []), (''JOB_PROGRESS_aaa'', [])] \<and>
   publish (subscribe_jobProgress two_subscribers (Some ''aaa'')) ''JOB_PROGRESS_aaa''
       sample_event =
     [(''JOB_PROGRESS_aaa'', [sample_event]), (''JOB_PROGRESS'', []),
      (''JOB_PROGRESS_aaa'', [sample_event])]"
proof -
  have t: "two_subscribers = [(''JOB_PROGRESS_aaa'', []), (''JOB_PROGRESS'', [])]"
    by (simp add: two_subscribers_def subscribe_jobProgress_eq)
  from subscribe_jobProgress_keeps_subscribers[of two_subscribers "Some ''aaa''"]
  obtain u where u: "subscribe_jobProgress two_subscribers (Some ''aaa'') =
      two_subscribers @ [(u, [])]" "u = ''JOB_PROGRESS_aaa''"
    "\<forall>topic ev. publish (subscribe_jobProgress two_subscribers (Some ''aaa'')) topic ev =
            publish two_subscribers topic ev @ [(u, if u = topic then [ev] else [])]"
    by auto
  have p: "publish two_subscribers ''JOB_PROGRESS_aaa'' sample_event =
     [(''JOB_PROGRESS_aaa'', [sample_event]), (''JOB_PROGRESS'', [])]"
    by (simp add: t publish_def)
  from u(3) have "publish (subscribe_jobProgress two_subscribers (Some ''aaa''))
      ''JOB_PROGRESS_aaa'' sample_event =
      publish two_subscribers ''JOB_PROGRESS_aaa'' sample_event @
        [(u, if u = ''JOB_PROGRESS_aaa'' then [sample_event] else [])]"
    by blast
  with u(1,2) p t show ?thesis by simp
qed

subsection \<open>createCommuteJob\<close>

lemma backend_createJob_Inl:
  "backend_createJob pg e w uuid now input = (w1, Inl err) \<Longrightarrow> \<exists>m. err = Error m"
  by (auto simp: backend_createJob_def split: if_splits prod.splits sum.splits)

lemma graphql_createJob_Inr:
  "graphql_createJob pg c (d, r) uuid now ci = ((d', r'), Inr job) \<Longrightarrow>
     \<exists>d1. CreateJob pg d uuid now ci = Inr (d', job)"
  by (auto simp: graphql_createJob_def Let_def split: sum.splits prod.splits)

lemma backend_createJob_Inr:
  "backend_createJob pg e w uuid now input = (w1, Inr job) \<Longrightarrow>
     jobs (store w1) (ID job) = Some job \<and> Status job = PENDING \<and> ID job = uuid \<and>
     bus w1 = bus w"
  by (auto simp: backend_createJob_def graphql_createJob_def Let_def
      dest!: CreateJob_Inr split: if_splits prod.splits sum.splits)

lemma createCommuteJob_Inr:
  assumes "createCommuteJob pg e w uuid now ts input = (w', Inr job)"
  shows "\<exists>w1 r'. backend_createJob pg e w uuid now input = (w1, Inr job) \<and>
           pushJob (redisJobQueue e) (gateway_redis e) (redis_server w1)
             (stringify_JobData (ID job) (UserID job) (TargetDate job)) = Inr r' \<and>
           w' = w1\<lparr>redis_server := r',
                   bus := publish (bus w1) ''JOB_PROGRESS'' (initial_event (ID job) ts)\<rparr>"
  using assms
  by (auto simp: createCommuteJob_def Let_def initial_event_def
      split: if_splits prod.splits sum.splits)

lemma sample_input_valid: "userId sample_input \<noteq> []" "targetDate sample_input \<noteq> []"
  by (simp_all add: sample_input_def)

lemma bus_sample_world:
  "bus sample_world = [(''JOB_PROGRESS_aaa'', []), (''JOB_PROGRESS'', [])]"
  by (simp add: sample_world_def subscribe_jobProgress_def asyncIterator_def)

lemma CreateJob_sample_input:
  "CreateJob example_pg sample_db ''aaa'' 30
      \<lparr>in_UserID = userId sample_input, in_TargetDate = targetDate sample_input,
       in_InputData = inputData sample_input\<rparr> =
     Inr (sample_db\<lparr>jobs := (jobs sample_db)(''aaa'' \<mapsto> queued_job)\<rparr>, queued_job)"
  by (simp add: CreateJob_def insert_job_def example_pg_def sample_input_def sample_db_def
      queued_job_def Let_def)

lemma graphql_createJob_sample:
  "graphql_createJob example_pg (Some True) (sample_db, (\<lambda>key. [])) ''aaa'' 30
      \<lparr>in_UserID = userId sample_input, in_TargetDate = targetDate sample_input,
       in_InputData = inputData sample_input\<rparr> =
     ((sample_db\<lparr>jobs := (jobs sample_db)(''aaa'' \<mapsto> queued_job)\<rparr>,
       (\<lambda>key. [])(''commute_jobs'' := [backend_descriptor])),
      Inr queued_job)"
  by (simp add: graphql_createJob_def CreateJob_sample_input QueueJob_def AddJobToQueue_def
      lPush_def marshal_JobMessage_def backend_descriptor_def)
    (simp add: queued_job_def sample_input_def)

lemma backend_createJob_sample:
  "backend_http e \<Longrightarrow> backend_redis e = Some True \<Longrightarrow>
   backend_createJob example_pg e sample_world ''aaa'' 30 sample_input =
     (sample_world\<lparr>store := sample_db\<lparr>jobs := (jobs sample_db)(''aaa'' \<mapsto> queued_job)\<rparr>,
        redis_server := (\<lambda>key. [])(''commute_jobs'' := [backend_descriptor])\<rparr>,
      Inr queued_job)"
proof -
  have w: "store sample_world = sample_db" "redis_server sample_world = (\<lambda>key. [])"
    by (simp_all add: sample_world_def)
  assume "backend_http e" "backend_redis e = Some True"
  then show ?thesis
    by (simp add: backend_createJob_def w graphql_createJob_sample)
qed

lemma stringify_queued_job:
  "stringify_JobData (ID queued_job) (UserID queued_job) (TargetDate queued_job) =
     gateway_descriptor"
  by (simp add: stringify_JobData_def queued_job_def gateway_descriptor_def)

lemma createCommuteJob_sample:
  "createCommuteJob example_pg all_up sample_world ''aaa'' 30 31 sample_input =
     (\<lparr>store = sample_db\<lparr>jobs := (jobs sample_db)(''aaa'' \<mapsto> queued_job)\<rparr>,
       redis_server = (\<lambda>key. [])(''commute_jobs'' := [gateway_descriptor, backend_descriptor]),
       bus = [(''JOB_PROGRESS_aaa'', []), (''JOB_PROGRESS'', [initial_event ''aaa'' 31])]\<rparr>,
      Inr queued_job)"
proof -
  have e: "backend_http all_up" "backend_redis all_up = Some True"
    "redisJobQueue all_up = ''commute_jobs''" "gateway_redis all_up"
    by (simp_all add: all_up_def)
  have i: "ID queued_job = ''aaa''" by (simp add: queued_job_def)
  have s: "stringify_JobData ''aaa'' (UserID queued_job) (TargetDate queued_job) =
     gateway_descriptor"
    using stringify_queued_job by (simp add: i)
  show ?thesis
    by (simp add: createCommuteJob_def sample_input_valid backend_createJob_sample[OF e(1,2)]
        e pushJob_def lPush_def Let_def bus_sample_world publish_def i s initial_event_def)
qed

lemma createCommuteJob_sample_push_fails:
  "createCommuteJob example_pg (all_up\<lparr>gateway_redis := False\<rparr>) sample_world ''aaa'' 30 31
       sample_input =
     (sample_world\<lparr>store := sample_db\<lparr>jobs := (jobs sample_db)(''aaa'' \<mapsto> queued_job)\<rparr>,
        redis_server := (\<lambda>key. [])(''commute_jobs'' := [backend_descriptor])\<rparr>,
      Inl (GraphQLError ''Failed to create commute job'' ''INTERNAL_ERROR''))"
proof -
  have e: "backend_http (all_up\<lparr>gateway_redis := False\<rparr>)"
    "backend_redis (all_up\<lparr>gateway_redis := False\<rparr>) = Some True"
    by (simp_all add: all_up_def)
  show ?thesis
    by (simp add: createCommuteJob_def sample_input_valid backend_createJob_sample[OF e]
        pushJob_def lPush_def catch_createCommuteJob_def)
qed

lemma createCommuteJob_sample_create_fails:
  "createCommuteJob example_pg all_up sample_world ''aaa'' 30 31
       (sample_input\<lparr>userId := ''nobody''\<rparr>) =
     (sample_world, Inl (GraphQLError ''Failed to create commute job'' ''INTERNAL_ERROR''))"
  by (simp add: createCommuteJob_def backend_createJob_def graphql_createJob_def CreateJob_def
      insert_job_def Let_def catch_createCommuteJob_def all_up_def sample_input_def
      sample_world_def sample_db_def)

lemma pushJob_Inl:
  "pushJob q link r v = Inl err \<Longrightarrow> err = Error ''Failed to queue job for processing''"
  by (auto simp: pushJob_def split: option.splits)

lemma QueueJob_down:
  "c \<noteq> Some True \<Longrightarrow> \<exists>err. QueueJob c r jobData = Inl err"
  by (cases c) (auto simp: QueueJob_def AddJobToQueue_def lPush_def Let_def split: option.splits)

lemma pushJob_sample_down:
  "pushJob (redisJobQueue (all_up\<lparr>gateway_redis := False\<rparr>))
     (gateway_redis (all_up\<lparr>gateway_redis := False\<rparr>)) r v =
     Inl (Error ''Failed to queue job for processing'')"
  by (simp add: pushJob_def lPush_def)

lemma graphql_createJob_queue:
  assumes "graphql_createJob pg (Some True) (d, r) uuid now ci = ((d', r'), Inr job)"
  shows "r' = r(''commute_jobs'' :=
           marshal_JobMessage (ID job) (UserID job) (TargetDate job) (in_InputData ci) #
           r ''commute_jobs'')"
  using assms
  by (auto simp: graphql_createJob_def QueueJob_def AddJobToQueue_def lPush_def Let_def
      split: sum.splits prod.splits)

lemma createCommuteJob_appends_two:
  assumes "createCommuteJob pg e w uuid now ts input = (w', Inr job)"
    and "backend_redis e = Some True" and "redisJobQueue e = ''commute_jobs''"
  shows "redis_server w' ''commute_jobs'' =
           stringify_JobData (ID job) (UserID job) (TargetDate job) #
           marshal_JobMessage (ID job) (UserID job) (TargetDate job) (inputData input) #
           redis_server w ''commute_jobs''"
proof -
  from createCommuteJob_Inr[OF assms(1)] obtain w1 r' where
    b: "backend_createJob pg e w uuid now input = (w1, Inr job)" and
    p: "pushJob (redisJobQueue e) (gateway_redis e) (redis_server w1)
             (stringify_JobData (ID job) (UserID job) (TargetDate job)) = Inr r'" and
    w': "w' = w1\<lparr>redis_server := r',
                   bus := publish (bus w1) ''JOB_PROGRESS'' (initial_event (ID job) ts)\<rparr>"
    by blast
  from b assms(2) obtain d1 r1 where
    g: "graphql_createJob pg (Some True) (store w, redis_server w) uuid now
          \<lparr>in_UserID = userId input, in_TargetDate = targetDate input,
           in_InputData = inputData input\<rparr> = ((d1, r1), Inr job)" and
    w1: "redis_server w1 = r1"
    by (auto simp: backend_createJob_def split: if_splits prod.splits sum.splits)
  from graphql_createJob_queue[OF g] have r1: "r1 = (redis_server w)(''commute_jobs'' :=
           marshal_JobMessage (ID job) (UserID job) (TargetDate job) (inputData input) #
           redis_server w ''commute_jobs'')" by simp
  from p assms(3) have "r' = (redis_server w1)(''commute_jobs'' :=
      stringify_JobData (ID job) (UserID job) (TargetDate job) # redis_server w1 ''commute_jobs'')"
    by (auto simp: pushJob_def lPush_def split: if_splits)
  with w' w1 r1 show ?thesis by simp
qed

text \<open>
  Claim C9. Every successful \<^const>\<open>createCommuteJob\<close> makes one publish call, on the aggregate
  topic \<^verbatim>\<open>JOB_PROGRESS\<close>, with the event \<^verbatim>\<open>{status: PENDING, progress: 0, currentStep: 'Queued
  for processing'}\<close> of the new job: every subscription keeps its topic, a subscription to
  the aggregate topic gets that event appended, and a subscription to the job's own topic
  \<^verbatim>\<open>JOB_PROGRESS_<id>\<close> gets nothing.
\<close>

theorem createCommuteJob_initial_progress:
  assumes "createCommuteJob pg e w uuid now ts input = (w', Inr job)"
  shows "bus w' = publish (bus w) ''JOB_PROGRESS'' (initial_event (ID job) ts) \<and>
         length (bus w') = length (bus w) \<and>
         (\<forall>i<length (bus w).
            fst (bus w' ! i) = fst (bus w ! i) \<and>
            (fst (bus w ! i) = ''JOB_PROGRESS'' \<longrightarrow>
               snd (bus w' ! i) = snd (bus w ! i) @ [initial_event (ID job) ts]) \<and>
            (fst (bus w ! i) = ''JOB_PROGRESS_'' @ ID job \<longrightarrow>
               snd (bus w' ! i) = snd (bus w ! i)))"
proof -
  from createCommuteJob_Inr[OF assms] obtain w1 r' where
    b: "backend_createJob pg e w uuid now input = (w1, Inr job)" and
    w': "w' = w1\<lparr>redis_server := r',
                   bus := publish (bus w1) ''JOB_PROGRESS'' (initial_event (ID job) ts)\<rparr>"
    by blast
  from backend_createJob_Inr[OF b] have "bus w1 = bus w" by simp
  with w' have p: "bus w' = publish (bus w) ''JOB_PROGRESS'' (initial_event (ID job) ts)"
    by simp
  have l: "length (bus w') = length (bus w)" by (simp add: p publish_def)
  show ?thesis using l by (auto simp: p publish_nth)
qed

theorem createCommuteJob_initial_progress_witness:
  "createCommuteJob example_pg all_up sample_world ''aaa'' 30 31 sample_input =
     (\<lparr>store = sample_db\<lparr>jobs := (jobs sample_db)(''aaa'' \<mapsto> queued_job)\<rparr>,
       redis_server = (\<lambda>key. [])(''commute_jobs'' := [gateway_descriptor, backend_descriptor]),
       bus = [(''JOB_PROGRESS_aaa'', []), (''JOB_PROGRESS'', [initial_event ''aaa'' 31])]\<rparr>,
      Inr queued_job) \<and>
   bus sample_world = [(''JOB_PROGRESS_aaa'', []), (''JOB_PROGRESS'', [])] \<and>
   publish (bus sample_world) ''JOB_PROGRESS'' (initial_event (ID queued_job) 31) =
     [(''JOB_PROGRESS_aaa'', []), (''JOB_PROGRESS'', [initial_event ''aaa'' 31])]"
proof -
  from createCommuteJob_initial_progress[OF createCommuteJob_sample]
  have "bus \<lparr>store = sample_db\<lparr>jobs := (jobs sample_db)(''aaa'' \<mapsto> queued_job)\<rparr>,
       redis_server = (\<lambda>key. [])(''commute_jobs'' := [gateway_descriptor, backend_descriptor]),
       bus = [(''JOB_PROGRESS_aaa'', []), (''JOB_PROGRESS'', [initial_event ''aaa'' 31])]\<rparr> =
     publish (bus sample_world) ''JOB_PROGRESS'' (initial_event (ID queued_job) 31)"
    by (rule conjunct1)
  then have "publish (bus sample_world) ''JOB_PROGRESS'' (initial_event (ID queued_job) 31) =
     [(''JOB_PROGRESS_aaa'', []), (''JOB_PROGRESS'', [initial_event ''aaa'' 31])]"
    by simp
  with createCommuteJob_sample bus_sample_world show ?thesis by blast
qed

text \<open>
  Claim C1, as the code has it. When the job is created through the backend and the gateway's
  push onto the queue fails, \<^const>\<open>createCommuteJob\<close> raises the generic error \<^verbatim>\<open>Failed to create
  commute job\<close> with code \<^verbatim>\<open>INTERNAL_ERROR\<close>, which names no job; the created row is in the
  store with status \<open>PENDING\<close>. A submission whose creation fails in the backend raises the
  same error. In the backend's own handler a failed push is not an error at all: the
  response carries the created job.
\<close>

theorem createCommuteJob_enqueue_fails:
  assumes "userId input \<noteq> []" and "targetDate input \<noteq> []"
    and "backend_createJob pg e w uuid now input = (w1, Inr job)"
    and "pushJob (redisJobQueue e) (gateway_redis e) (redis_server w1)
           (stringify_JobData (ID job) (UserID job) (TargetDate job)) = Inl err"
  shows "createCommuteJob pg e w uuid now ts input =
           (w1, Inl (GraphQLError ''Failed to create commute job'' ''INTERNAL_ERROR'')) \<and>
         Job (store w1) (ID job) = Inr job \<and> Status job = PENDING \<and>
         (\<forall>e2 w2 uuid2 now2 ts2 input2 w3 err2.
            userId input2 \<noteq> [] \<and> targetDate input2 \<noteq> [] \<and>
            backend_createJob pg e2 w2 uuid2 now2 input2 = (w3, Inl err2) \<longrightarrow>
            createCommuteJob pg e2 w2 uuid2 now2 ts2 input2 =
              (w3, Inl (GraphQLError ''Failed to create commute job'' ''INTERNAL_ERROR''))) \<and>
         (\<forall>c d r d' j ci. c \<noteq> Some True \<and> CreateJob pg d uuid now ci = Inr (d', j) \<longrightarrow>
            graphql_createJob pg c (d, r) uuid now ci = ((d', r), Inr j))"
proof (intro conjI allI impI)
  from pushJob_Inl[OF assms(4)] have e: "err = Error ''Failed to queue job for processing''" .
  show "createCommuteJob pg e w uuid now ts input =
           (w1, Inl (GraphQLError ''Failed to create commute job'' ''INTERNAL_ERROR''))"
    using assms e by (simp add: createCommuteJob_def catch_createCommuteJob_def)
  from backend_createJob_Inr[OF assms(3)]
  show "Job (store w1) (ID job) = Inr job" "Status job = PENDING"
    by (auto simp: Job_def)
next
  fix e2 w2 uuid2 now2 ts2 input2 w3 err2
  assume a: "userId input2 \<noteq> [] \<and> targetDate input2 \<noteq> [] \<and>
            backend_createJob pg e2 w2 uuid2 now2 input2 = (w3, Inl err2)"
  then obtain m where "err2 = Error m" using backend_createJob_Inl by blast
  with a show "createCommuteJob pg e2 w2 uuid2 now2 ts2 input2 =
              (w3, Inl (GraphQLError ''Failed to create commute job'' ''INTERNAL_ERROR''))"
    by (simp add: createCommuteJob_def catch_createCommuteJob_def)
next
  fix c d r d' j ci
  assume a: "c \<noteq> Some True \<and> CreateJob pg d uuid now ci = Inr (d', j)"
  then obtain err' where "QueueJob c r
      ([''job_id'' \<mapsto> ID j, ''user_id'' \<mapsto> UserID j, ''target_date'' \<mapsto> TargetDate j]
         (''input_data'' := in_InputData ci)) = Inl err'"
    using QueueJob_down by blast
  with a show "graphql_createJob pg c (d, r) uuid now ci = ((d', r), Inr j)"
    by (simp add: graphql_createJob_def Let_def)
qed

theorem createCommuteJob_enqueue_fails_witness:
  "backend_createJob example_pg (all_up\<lparr>gateway_redis := False\<rparr>) sample_world ''aaa'' 30
       sample_input =
     (sample_world\<lparr>store := sample_db\<lparr>jobs := (jobs sample_db)(''aaa'' \<mapsto> queued_job)\<rparr>,
        redis_server := (\<lambda>key. [])(''commute_jobs'' := [backend_descriptor])\<rparr>,
      Inr queued_job) \<and>
   createCommuteJob example_pg (all_up\<lparr>gateway_redis := False\<rparr>) sample_world ''aaa'' 30 31
       sample_input =
     (sample_world\<lparr>store := sample_db\<lparr>jobs := (jobs sample_db)(''aaa'' \<mapsto> queued_job)\<rparr>,
        redis_server := (\<lambda>key. [])(''commute_jobs'' := [backend_descriptor])\<rparr>,
      Inl (GraphQLError ''Failed to create commute job'' ''INTERNAL_ERROR'')) \<and>
   Status queued_job = PENDING"
proof -
  have e: "backend_http (all_up\<lparr>gateway_redis := False\<rparr>)"
    "backend_redis (all_up\<lparr>gateway_redis := False\<rparr>) = Some True"
    by (simp_all add: all_up_def)
  note b = backend_createJob_sample[OF e]
  note t = createCommuteJob_enqueue_fails[OF sample_input_valid b pushJob_sample_down, of 31]
  from t[THEN conjunct1] t[THEN conjunct2, THEN conjunct2, THEN conjunct1] b
  show ?thesis by blast
qed

text \<open>
  The claim as the specification words it fails: the error of a submission whose push fails
  after the row was created is the error of a submission whose creation fails for an unknown
  user, although the first left the row \<^verbatim>\<open>aaa\<close> in the store and the second left none.
\<close>

theorem createCommuteJob_enqueue_fails_counterexample:
  "snd (createCommuteJob example_pg (all_up\<lparr>gateway_redis := False\<rparr>) sample_world ''aaa'' 30 31
          sample_input) =
     snd (createCommuteJob example_pg all_up sample_world ''aaa'' 30 31
          (sample_input\<lparr>userId := ''nobody''\<rparr>)) \<and>
   Job (store (fst (createCommuteJob example_pg (all_up\<lparr>gateway_redis := False\<rparr>) sample_world
          ''aaa'' 30 31 sample_input))) ''aaa'' = Inr queued_job \<and>
   Job (store (fst (createCommuteJob example_pg all_up sample_world ''aaa'' 30 31
          (sample_input\<lparr>userId := ''nobody''\<rparr>)))) ''aaa'' = Inl ErrJobNotFound"
  by (simp add: createCommuteJob_sample_push_fails createCommuteJob_sample_create_fails Job_def)
    (simp add: sample_world_def sample_db_def)

text \<open>
  Claim C2, at its failing input. With every link up, one successful submission through the
  gateway leaves two descriptors of the job on \<^verbatim>\<open>commute_jobs\<close>: the backend's handler
  pushes one while it serves \<^verbatim>\<open>createJob\<close>, and the gateway pushes another
  (\<open>createCommuteJob_appends_two\<close> is the general statement).
\<close>

theorem createCommuteJob_queues_twice:
  "snd (createCommuteJob example_pg all_up sample_world ''aaa'' 30 31 sample_input) =
     Inr queued_job \<and>
   redis_server sample_world ''commute_jobs'' = [] \<and>
   redis_server (fst (createCommuteJob example_pg all_up sample_world ''aaa'' 30 31
       sample_input)) ''commute_jobs'' = [gateway_descriptor, backend_descriptor] \<and>
   map_of gateway_descriptor ''job_id'' = Some (ID queued_job) \<and>
   map_of backend_descriptor ''job_id'' = Some (ID queued_job)"
  by (simp add: createCommuteJob_sample)
    (simp add: sample_world_def gateway_descriptor_def backend_descriptor_def queued_job_def)

text \<open>
  Claim C8, at its failing input. The submission carries \<^verbatim>\<open>inputData\<close>, and the descriptor
  that the gateway pushes has the keys \<^verbatim>\<open>job_id\<close>, \<^verbatim>\<open>user_id\<close> and \<^verbatim>\<open>target_date\<close> only;
  the descriptor of the backend's handler for the same job has \<^verbatim>\<open>input_data\<close>.
\<close>

theorem createCommuteJob_descriptor_drops_input_data:
  "inputData sample_input = Some ''{}'' \<and>
   snd (createCommuteJob example_pg all_up sample_world ''aaa'' 30 31 sample_input) =
     Inr queued_job \<and>
   hd (redis_server (fst (createCommuteJob example_pg all_up sample_world ''aaa'' 30 31
       sample_input)) ''commute_jobs'') = gateway_descriptor \<and>
   map fst gateway_descriptor = [''job_id'', ''user_id'', ''target_date''] \<and>
   map_of gateway_descriptor ''input_data'' = None \<and>
   map_of backend_descriptor ''input_data'' = Some ''{}''"
  by (simp add: createCommuteJob_sample)
    (simp add: sample_input_def gateway_descriptor_def backend_descriptor_def)

end
